theory Spec2Isabelle
  imports Complex_Main
begin

section \<open>Student performance classification app (\<^verbatim>\<open>src/app.py\<close>)\<close>

text \<open>
  The program is one Streamlit script. Streamlit executes the script from its first line
  to its last once per render cycle (the first page load and every later interaction);
  the script itself is straight-line code with one \<^verbatim>\<open>if/elif/elif\<close> on the selected page
  and one \<^verbatim>\<open>if\<close> on the submit button. One execution of the script is modelled by the
  function \<open>app\<close>: it takes what the outside world hands to that execution (the files on
  disk, the selection of the radio, the values of the controls, what triggered the run)
  and returns the calls the script made, in order, together with the exception that ended
  the run, if one did.

  Python \<^verbatim>\<open>str\<close> values are modelled as \<open>string\<close> holding the UTF-8 bytes of the text, so
  a character outside ASCII is written as its bytes (\<open>CHR 0xE2\<close> ...); two Python strings
  are equal exactly when their byte strings are. Python \<^verbatim>\<open>float\<close> literals and control
  values are modelled as the exact decimals they denote (\<open>rat\<close>), Python \<^verbatim>\<open>int\<close> as \<open>int\<close>.
\<close>

subsection \<open>Values, tables and errors\<close>

datatype cell = PyFloat rat | PyInt int | PyStr string

text \<open>A dict literal, in insertion order (Python keeps it); its keys are distinct.\<close>

type_synonym 'v dict = "(string \<times> 'v) list"

text \<open>A \<^verbatim>\<open>pandas.DataFrame\<close>: the column names and the rows; a missing cell is \<open>None\<close>.\<close>

record dataframe =
  columns :: "string list"
  rows :: "cell option list list"

fun first_seen :: "string list \<Rightarrow> string list \<Rightarrow> string list" where
  "first_seen seen [] = []"
| "first_seen seen (k # ks) =
     (if k \<in> set seen then first_seen seen ks else k # first_seen (k # seen) ks)"

text \<open>\<^verbatim>\<open>pd.DataFrame([d1, ..., dn])\<close> of a list of dicts: the columns are the keys in the
  order they are first seen, one row per dict.\<close>

definition DataFrame_of_records :: "cell dict list \<Rightarrow> dataframe" where
  "DataFrame_of_records recs =
     (let cols = first_seen [] (concat (map (map fst) recs))
      in \<lparr>columns = cols, rows = map (\<lambda>r. map (map_of r) cols) recs\<rparr>)"

text \<open>\<^verbatim>\<open>pd.DataFrame(d.items(), columns=[c1, c2])\<close>: one row per pair of the dict.\<close>

definition DataFrame_of_items :: "string dict \<Rightarrow> string list \<Rightarrow> dataframe" where
  "DataFrame_of_items items cols =
     \<lparr>columns = cols, rows = map (\<lambda>(k, v). [Some (PyStr k), Some (PyStr v)]) items\<rparr>"

datatype error =
    LoadError string          \<comment> \<open>\<^verbatim>\<open>joblib.load\<close> raised: the file is missing or unreadable\<close>
  | FileNotFoundError string  \<comment> \<open>\<^verbatim>\<open>Image.open\<close> raised\<close>
  | IndexError                \<comment> \<open>\<^verbatim>\<open>[0]\<close> on an empty prediction array\<close>
  | PredictError              \<comment> \<open>\<^verbatim>\<open>model.predict\<close> raised\<close>

text \<open>The model artifact is opaque: all the script uses of it is \<^verbatim>\<open>predict\<close>, from a table
  to a sequence of integer class labels (or an exception).\<close>

type_synonym model = "dataframe \<Rightarrow> error + int list"

subsection \<open>The input controls of the Prediction page\<close>

record float_slider =
  fs_label :: string
  fs_min_value :: rat
  fs_max_value :: rat
  fs_value :: rat
  fs_step :: rat

record int_slider =
  is_label :: string
  is_min_value :: int
  is_max_value :: int
  is_value :: int

record number_input =
  ni_label :: string
  ni_min_value :: rat
  ni_max_value :: rat
  ni_value :: rat
  ni_step :: rat

record selectbox =
  sb_label :: string
  sb_options :: "string list"

definition sleep_hours_slider :: float_slider where
  "sleep_hours_slider =
     \<lparr>fs_label = ''Sleep Hours per Day'', fs_min_value = 4.0, fs_max_value = 12.0,
      fs_value = 7.0, fs_step = 0.1\<rparr>"

definition exercise_frequency_slider :: int_slider where
  "exercise_frequency_slider =
     \<lparr>is_label = ''Exercise Frequency (per week)'', is_min_value = 0, is_max_value = 7,
      is_value = 3\<rparr>"

definition stress_level_slider :: float_slider where
  "stress_level_slider =
     \<lparr>fs_label = ''Stress Level'', fs_min_value = 1.0, fs_max_value = 10.0,
      fs_value = 5.0, fs_step = 0.1\<rparr>"

definition screen_time_slider :: float_slider where
  "screen_time_slider =
     \<lparr>fs_label = ''Daily Screen Time (hours)'', fs_min_value = 0.3, fs_max_value = 21.0,
      fs_value = 5.0, fs_step = 0.1\<rparr>"

definition motivation_level_slider :: int_slider where
  "motivation_level_slider =
     \<lparr>is_label = ''Motivation Level'', is_min_value = 1, is_max_value = 10, is_value = 6\<rparr>"

definition exam_anxiety_score_slider :: float_slider where
  "exam_anxiety_score_slider =
     \<lparr>fs_label = ''Exam Anxiety Score'', fs_min_value = 5.0, fs_max_value = 10.0,
      fs_value = 7.0, fs_step = 0.5\<rparr>"

definition study_efficiency_input :: number_input where
  "study_efficiency_input =
     \<lparr>ni_label = ''Study Efficiency'', ni_min_value = 0.0, ni_max_value = 5.75,
      ni_value = 2.0, ni_step = 0.05\<rparr>"

definition screen_time_penalty_input :: number_input where
  "screen_time_penalty_input =
     \<lparr>ni_label = ''Screen Time Penalty'', ni_min_value = 0.0, ni_max_value = 90.0,
      ni_value = 10.0, ni_step = 1.0\<rparr>"

definition study_environment_select :: selectbox where
  "study_environment_select =
     \<lparr>sb_label = ''Study Environment'',
      sb_options = [''Quiet Room'', ''Library'', ''Co-Learning Group'', ''Dorm'', ''Cafe'']\<rparr>"

definition access_to_tutoring_select :: selectbox where
  "access_to_tutoring_select =
     \<lparr>sb_label = ''Access to Tutoring'', sb_options = [''Yes'', ''No'']\<rparr>"

text \<open>
  What a control can return, as its arguments fix it: a slider returns a position
  \<open>min_value + k * step\<close> that does not pass \<open>max_value\<close> (an integer slider steps by 1),
  a number input returns any number between \<open>min_value\<close> and \<open>max_value\<close> (the user may
  type it, so the step does not restrict it), a select box returns one of its options.
\<close>

definition float_slider_returns :: "float_slider \<Rightarrow> rat \<Rightarrow> bool" where
  "float_slider_returns s v =
     (fs_min_value s \<le> v \<and> v \<le> fs_max_value s \<and>
      (let q = (v - fs_min_value s) / fs_step s in of_int \<lfloor>q\<rfloor> = q))"

definition int_slider_returns :: "int_slider \<Rightarrow> int \<Rightarrow> bool" where
  "int_slider_returns s v = (is_min_value s \<le> v \<and> v \<le> is_max_value s)"

definition number_input_returns :: "number_input \<Rightarrow> rat \<Rightarrow> bool" where
  "number_input_returns n v = (ni_min_value n \<le> v \<and> v \<le> ni_max_value n)"

definition selectbox_returns :: "selectbox \<Rightarrow> string \<Rightarrow> bool" where
  "selectbox_returns b v = (v \<in> set (sb_options b))"

text \<open>The values the ten controls returned in one run, in the order the script reads them.\<close>

record widget_values =
  sleep_hours :: rat
  exercise_frequency :: int
  stress_level :: rat
  screen_time :: rat
  motivation_level :: int
  exam_anxiety_score :: rat
  study_efficiency :: rat
  screen_time_penalty :: rat
  study_environment :: string
  access_to_tutoring :: string

definition controls_return :: "widget_values \<Rightarrow> bool" where
  "controls_return w =
     (float_slider_returns sleep_hours_slider (sleep_hours w) \<and>
      int_slider_returns exercise_frequency_slider (exercise_frequency w) \<and>
      float_slider_returns stress_level_slider (stress_level w) \<and>
      float_slider_returns screen_time_slider (screen_time w) \<and>
      int_slider_returns motivation_level_slider (motivation_level w) \<and>
      float_slider_returns exam_anxiety_score_slider (exam_anxiety_score w) \<and>
      number_input_returns study_efficiency_input (study_efficiency w) \<and>
      number_input_returns screen_time_penalty_input (screen_time_penalty w) \<and>
      selectbox_returns study_environment_select (study_environment w) \<and>
      selectbox_returns access_to_tutoring_select (access_to_tutoring w))"

text \<open>The values every control shows before the user touches it: \<^verbatim>\<open>value=\<close> of a slider or
  number input, the first option of a select box.\<close>

definition default_values :: widget_values where
  "default_values =
     \<lparr>sleep_hours = fs_value sleep_hours_slider,
      exercise_frequency = is_value exercise_frequency_slider,
      stress_level = fs_value stress_level_slider,
      screen_time = fs_value screen_time_slider,
      motivation_level = is_value motivation_level_slider,
      exam_anxiety_score = fs_value exam_anxiety_score_slider,
      study_efficiency = ni_value study_efficiency_input,
      screen_time_penalty = ni_value screen_time_penalty_input,
      study_environment = hd (sb_options study_environment_select),
      access_to_tutoring = hd (sb_options access_to_tutoring_select)\<rparr>"

subsection \<open>What one run of the script does\<close>

text \<open>
  The calls of one run, in order. A call made inside \<^verbatim>\<open>with col1:\<close> or \<^verbatim>\<open>with col2:\<close> is
  tagged with its column.
\<close>

datatype effect =
    JoblibLoad string                    \<comment> \<open>\<^verbatim>\<open>joblib.load(path)\<close>\<close>
  | SetPageConfig string string          \<comment> \<open>\<^verbatim>\<open>page_title\<close>, \<^verbatim>\<open>layout\<close>\<close>
  | SidebarRadio string "string list"    \<comment> \<open>label, options\<close>
  | Title string
  | Markdown string
  | ImageOpen string                     \<comment> \<open>\<^verbatim>\<open>Image.open(path)\<close>\<close>
  | StImage string bool                  \<comment> \<open>the opened image, \<^verbatim>\<open>use_container_width\<close>\<close>
  | Columns nat
  | Metric string string                 \<comment> \<open>label, value\<close>
  | StDataframe dataframe bool           \<comment> \<open>the table, \<^verbatim>\<open>use_container_width\<close>\<close>
  | FloatSlider float_slider
  | IntSlider int_slider
  | NumberInput number_input
  | Selectbox selectbox
  | Button string
  | Predict dataframe                    \<comment> \<open>\<^verbatim>\<open>model.predict(input_data)\<close>\<close>
  | Success string
  | InColumn nat effect

type_synonym run = "effect list \<times> error option"

text \<open>What started a run. \<^verbatim>\<open>st.button\<close> returns \<^verbatim>\<open>True\<close> in the run its click started and
  \<^verbatim>\<open>False\<close> in every other run.\<close>

datatype trigger = FirstLoad | NavigationChange | ControlChange | SubmitClick

definition st_button :: "trigger \<Rightarrow> bool" where
  "st_button t = (t = SubmitClick)"

record env =
  artifact :: "model option"   \<comment> \<open>what \<^verbatim>\<open>joblib.load\<close> finds: \<open>None\<close> when missing or unreadable\<close>
  image_asset :: bool          \<comment> \<open>whether the image file is there\<close>
  page :: string               \<comment> \<open>what \<^verbatim>\<open>st.sidebar.radio\<close> returns\<close>
  controls :: widget_values    \<comment> \<open>what the ten controls return\<close>
  trigger :: trigger

definition model_path :: string where
  "model_path = ''exam_score_calss_model.pkl''"

definition image_path :: string where
  "image_path = ''dom-fou-YRMWVcdyhmI-unsplash.jpg''"

definition navigation_options :: "string list" where
  "navigation_options = [''Project Overview'', ''Feature Explanation'', ''Prediction'']"

text \<open>\<^verbatim>\<open>st.sidebar.radio\<close> is called without \<^verbatim>\<open>index\<close>, so its first selection is option 0.\<close>

definition radio_initial :: "string list \<Rightarrow> string" where
  "radio_initial opts = opts ! 0"

definition startup :: "effect list" where
  "startup =
     [JoblibLoad model_path,
      SetPageConfig ''Student Performance Classification'' ''wide'',
      SidebarRadio ''Navigation'' navigation_options]"

subsubsection \<open>Page 1: Project Overview\<close>

definition overview_title :: string where
  "overview_title = [CHR 0xF0, CHR 0x9F, CHR 0x8E, CHR 0x93] @ '' Student Performance Classification''"

definition overview_text :: string where
  "overview_text =
     ''\<newline>'' @
     ''### '' @ [CHR 0xF0, CHR 0x9F, CHR 0x94, CHR 0x8D] @ '' What is this dataset about?\<newline>'' @
     ''This dataset is designed to analyze and predict students'' @ [CHR 0x27] @ '' academic performance by \<newline>'' @
     ''capturing a wide range of behavioral, psychological, and lifestyle factors.\<newline>'' @
     ''\<newline>'' @
     ''It includes information related to:\<newline>'' @
     ''- **Student behavior** (study habits, time management, screen usage)\<newline>'' @
     ''- **Mental health** (stress level, exam anxiety, psychological well-being)\<newline>'' @
     ''- **Family support** (parental support and family background)\<newline>'' @
     ''- **Lifestyle patterns** (sleep quality, diet, and daily routines)\<newline>'' @
     ''\<newline>'' @
     ''---\<newline>'' @
     ''\<newline>'' @
     ''### '' @ [CHR 0xF0, CHR 0x9F, CHR 0x8E, CHR 0xAF] @ '' Project Objective\<newline>'' @
     ''The main goal of this project is to **predict the student'' @ [CHR 0x27] @ ''s final exam score (Exam Score)**  \<newline>'' @
     ''based on these combined factors, helping to understand what truly drives academic success.\<newline>'' @
     ''\<newline>'' @
     ''---\<newline>'' @
     ''\<newline>'' @
     ''### '' @ [CHR 0xF0, CHR 0x9F, CHR 0x9B, CHR 0xA0] @ '' What did we do?\<newline>'' @
     ''- Data Cleaning and Validation  \<newline>'' @
     ''- Feature Engineering (e.g., study efficiency, sleep quality, screen time impact)  \<newline>'' @
     ''- Encoding Categorical Features  \<newline>'' @
     ''- Scaling Numerical Features  \<newline>'' @
     ''- Training and Comparing Multiple Regression Models  \<newline>'' @
     ''- Hyperparameter Tuning using **Randomized Search**  \<newline>'' @
     ''- Selecting the Best-Performing Model  \<newline>'' @
     ''\<newline>'' @
     ''---\<newline>'' @
     ''\<newline>'' @
     ''### '' @ [CHR 0xF0, CHR 0x9F, CHR 0x92, CHR 0xA1] @ '' Why is this useful?\<newline>'' @
     ''- **Early identification** of students at risk of low academic performance  \<newline>'' @
     ''- Helping **schools and educators** make data-driven interventions  \<newline>'' @
     ''- Supporting **parents** in understanding factors affecting their children'' @ [CHR 0xE2, CHR 0x80, CHR 0x99] @ ''s performance  \<newline>'' @
     ''- Guiding **students** toward improving specific behaviors to enhance outcomes  \<newline>'' @
     ''- Enabling **data-driven academic decision-making** instead of intuition-based judgment  \<newline>'' @
     ''\<newline>'' @
     ''This project demonstrates how data can be transformed into actionable insights  \<newline>'' @
     ''to improve educational outcomes.\<newline>''"

definition overview_after_image :: "effect list" where
  "overview_after_image =
     [StImage image_path True,
      Markdown (''## '' @ [CHR 0xF0, CHR 0x9F, CHR 0x93, CHR 0x8A] @ '' Dataset Overview''),
      Columns 2,
      InColumn 1 (Metric ''Number of Rows'' ([CHR 0xE2, CHR 0x89, CHR 0x88] @ '' 82,000'')),
      InColumn 2 (Metric ''Number of Features'' ''31''),
      Markdown overview_text]"

definition overview_page :: "env \<Rightarrow> run" where
  "overview_page e =
     (if image_asset e
      then ([Title overview_title, ImageOpen image_path] @ overview_after_image, None)
      else ([Title overview_title, ImageOpen image_path], Some (FileNotFoundError image_path)))"

subsubsection \<open>Page 2: Feature Explanation\<close>

definition feature_title :: string where
  "feature_title = [CHR 0xF0, CHR 0x9F, CHR 0x93, CHR 0x98] @ '' Feature Description & Input Guide''"

definition feature_intro :: string where
  "feature_intro =
     ''\<newline>'' @
     ''        This page explains each feature used in the model and how it impacts\<newline>'' @
     ''        the student'' @ [CHR 0x27] @ ''s academic performance prediction.\<newline>'' @
     ''        ''"

definition feature_info :: "string dict" where
  "feature_info =
     [(''sleep_hours'',
       ''Average number of hours the student sleeps per day. Adequate sleep improves focus, memory, and academic performance.''),
      (''exercise_frequency'',
       ''Number of times the student exercises per week. Regular exercise is linked to better mental health and concentration.''),
      (''stress_level'',
       ''Measures the student'' @ [CHR 0x27] @ ''s stress level on a scale from 1 to 10. Higher stress often negatively impacts academic outcomes.''),
      (''screen_time'',
       ''Total daily screen time in hours. Excessive screen usage may reduce study time and sleep quality.''),
      (''study_environment'',
       ''The environment where the student usually studies (e.g., quiet room, library). A better environment enhances productivity.''),
      (''access_to_tutoring'',
       ''Indicates whether the student has access to additional tutoring or academic support.''),
      (''motivation_level'',
       ''Represents how motivated the student is to study, rated from 1 to 10. Higher motivation usually leads to better performance.''),
      (''exam_anxiety_score'',
       ''Measures anxiety level before exams. High anxiety can reduce exam performance despite good preparation.''),
      (''study_efficiency'',
       ''Represents how effectively the student studies within a given time. Higher values indicate better focus and learning quality.''),
      (''screen_time_penalty'',
       ''Quantifies the negative impact of excessive screen time on academic performance.'')]"

definition df_features :: dataframe where
  "df_features = DataFrame_of_items feature_info [''Feature Name'', ''Description'']"

definition feature_explanation_page :: run where
  "feature_explanation_page =
     ([Title feature_title, Markdown feature_intro, StDataframe df_features True], None)"

subsubsection \<open>Page 3: Prediction\<close>

definition prediction_title :: string where
  "prediction_title = [CHR 0xF0, CHR 0x9F, CHR 0xA4, CHR 0x96] @ '' Student Performance Classification''"

definition predict_button :: string where
  "predict_button = [CHR 0xF0, CHR 0x9F, CHR 0x8E, CHR 0xAF] @ '' Predict Performance''"

definition prediction_form :: "effect list" where
  "prediction_form =
     [Title prediction_title,
      Markdown ''### Enter Student Information'',
      Columns 2,
      InColumn 1 (FloatSlider sleep_hours_slider),
      InColumn 1 (IntSlider exercise_frequency_slider),
      InColumn 1 (FloatSlider stress_level_slider),
      InColumn 1 (FloatSlider screen_time_slider),
      InColumn 1 (IntSlider motivation_level_slider),
      InColumn 2 (FloatSlider exam_anxiety_score_slider),
      InColumn 2 (NumberInput study_efficiency_input),
      InColumn 2 (NumberInput screen_time_penalty_input),
      InColumn 2 (Selectbox study_environment_select),
      InColumn 2 (Selectbox access_to_tutoring_select),
      Button predict_button]"

definition input_record :: "widget_values \<Rightarrow> cell dict" where
  "input_record w =
     [(''sleep_hours'', PyFloat (sleep_hours w)),
      (''exercise_frequency'', PyInt (exercise_frequency w)),
      (''stress_level'', PyFloat (stress_level w)),
      (''screen_time'', PyFloat (screen_time w)),
      (''study_environment'', PyStr (study_environment w)),
      (''access_to_tutoring'', PyStr (access_to_tutoring w)),
      (''motivation_level'', PyInt (motivation_level w)),
      (''exam_anxiety_score'', PyFloat (exam_anxiety_score w)),
      (''study_efficiency'', PyFloat (study_efficiency w)),
      (''screen_time_penalty'', PyFloat (screen_time_penalty w))]"

definition input_data :: "widget_values \<Rightarrow> dataframe" where
  "input_data w = DataFrame_of_records [input_record w]"

definition class_mapping :: "int \<rightharpoonup> string" where
  "class_mapping =
     [0 \<mapsto> [CHR 0xE2, CHR 0x9D, CHR 0x8C] @ '' At Risk'',
      1 \<mapsto> [CHR 0xE2, CHR 0x9A, CHR 0xA0, CHR 0xEF, CHR 0xB8, CHR 0x8F] @ '' Average'',
      2 \<mapsto> [CHR 0xE2, CHR 0x9C, CHR 0x85] @ '' High Performer'']"

text \<open>\<^verbatim>\<open>d.get(k, default)\<close>\<close>

definition dict_get :: "('k \<rightharpoonup> 'v) \<Rightarrow> 'k \<Rightarrow> 'v \<Rightarrow> 'v" where
  "dict_get d k dflt = (case d k of None \<Rightarrow> dflt | Some v \<Rightarrow> v)"

definition prediction_label :: "int \<Rightarrow> string" where
  "prediction_label prediction = dict_get class_mapping prediction ''Unknown''"

definition success_message :: "string \<Rightarrow> string" where
  "success_message label =
     [CHR 0xF0, CHR 0x9F, CHR 0x93, CHR 0x8A] @ '' Predicted Performance Level: **'' @ label @ ''**''"

text \<open>\<^verbatim>\<open>model.predict(input_data)[0]\<close>: the call, then element 0 of what it returned.\<close>

definition first_prediction :: "model \<Rightarrow> dataframe \<Rightarrow> error + int" where
  "first_prediction m d =
     (case m d of
        Inl err \<Rightarrow> Inl err
      | Inr ys \<Rightarrow> (case ys of [] \<Rightarrow> Inl IndexError | y # _ \<Rightarrow> Inr y))"

definition prediction_page :: "model \<Rightarrow> env \<Rightarrow> run" where
  "prediction_page m e =
     (if st_button (trigger e) then
        (case first_prediction m (input_data (controls e)) of
           Inl err \<Rightarrow> (prediction_form @ [Predict (input_data (controls e))], Some err)
         | Inr prediction \<Rightarrow>
             (prediction_form @
                [Predict (input_data (controls e)),
                 Success (success_message (prediction_label prediction))],
              None))
      else (prediction_form, None))"

subsubsection \<open>The script\<close>

definition app :: "env \<Rightarrow> run" where
  "app e =
     (case artifact e of
        None \<Rightarrow> ([JoblibLoad model_path], Some (LoadError model_path))
      | Some m \<Rightarrow>
          (let (es, r) =
                 (if page e = ''Project Overview'' then overview_page e
                  else if page e = ''Feature Explanation'' then feature_explanation_page
                  else if page e = ''Prediction'' then prediction_page m e
                  else ([], None))
           in (startup @ es, r)))"

text \<open>A session is a sequence of runs; what it does is what its runs do, one after the
  other (a run that raised is followed by the next run all the same).\<close>

definition session :: "env list \<Rightarrow> effect list" where
  "session es = concat (map (\<lambda>e. fst (app e)) es)"

definition loads :: "effect list \<Rightarrow> nat" where
  "loads t = length (filter (\<lambda>x. case x of JoblibLoad _ \<Rightarrow> True | _ \<Rightarrow> False) t)"

definition predictions :: "effect list \<Rightarrow> dataframe list" where
  "predictions t = concat (map (\<lambda>x. case x of Predict d \<Rightarrow> [d] | _ \<Rightarrow> []) t)"

subsection \<open>The declared domains of the ten attributes\<close>

text \<open>
  The domain table of the specification's data model, attribute by attribute: the
  continuous attributes with their closed intervals (\<open>exam_anxiety_score\<close> on its grid of
  step 0.5 from 5.0), the integer attributes with their integer ranges, the categorical
  attributes with their listed strings. This definition follows the table, not the code.
\<close>

definition declared_domain :: "string \<Rightarrow> cell \<Rightarrow> bool" where
  "declared_domain a c =
     (if a = ''sleep_hours'' then
        (case c of PyFloat x \<Rightarrow> 4.0 \<le> x \<and> x \<le> 12.0 | _ \<Rightarrow> False)
      else if a = ''exercise_frequency'' then
        (case c of PyInt i \<Rightarrow> 0 \<le> i \<and> i \<le> 7 | _ \<Rightarrow> False)
      else if a = ''stress_level'' then
        (case c of PyFloat x \<Rightarrow> 1.0 \<le> x \<and> x \<le> 10.0 | _ \<Rightarrow> False)
      else if a = ''screen_time'' then
        (case c of PyFloat x \<Rightarrow> 0.3 \<le> x \<and> x \<le> 21.0 | _ \<Rightarrow> False)
      else if a = ''study_environment'' then
        (case c of
           PyStr s \<Rightarrow>
             s \<in> set [''Quiet Room'', ''Library'', ''Co-Learning Group'', ''Dorm'', ''Cafe'']
         | _ \<Rightarrow> False)
      else if a = ''access_to_tutoring'' then
        (case c of PyStr s \<Rightarrow> s \<in> set [''Yes'', ''No''] | _ \<Rightarrow> False)
      else if a = ''motivation_level'' then
        (case c of PyInt i \<Rightarrow> 1 \<le> i \<and> i \<le> 10 | _ \<Rightarrow> False)
      else if a = ''exam_anxiety_score'' then
        (case c of
           PyFloat x \<Rightarrow>
             5.0 \<le> x \<and> x \<le> 10.0 \<and> of_int \<lfloor>(x - 5.0) / 0.5\<rfloor> = (x - 5.0) / 0.5
         | _ \<Rightarrow> False)
      else if a = ''study_efficiency'' then
        (case c of PyFloat x \<Rightarrow> 0.0 \<le> x \<and> x \<le> 5.75 | _ \<Rightarrow> False)
      else if a = ''screen_time_penalty'' then
        (case c of PyFloat x \<Rightarrow> 0.0 \<le> x \<and> x \<le> 90.0 | _ \<Rightarrow> False)
      else False)"

subsection \<open>Concrete inputs\<close>

text \<open>A model artifact that answers every table with the same labels.\<close>

definition constant_model :: "int list \<Rightarrow> model" where
  "constant_model ys d = Inr ys"

text \<open>The first run of a session: the model and the image are there, the radio is at its
  first option, every control at its default.\<close>

definition first_run :: env where
  "first_run =
     \<lparr>artifact = Some (constant_model [2]), image_asset = True,
      page = radio_initial navigation_options, controls = default_values,
      trigger = FirstLoad\<rparr>"

text \<open>A submit on the Prediction page with the controls moved.\<close>

definition moved_values :: widget_values where
  "moved_values =
     \<lparr>sleep_hours = 8.5, exercise_frequency = 5, stress_level = 3.2, screen_time = 0.3,
      motivation_level = 10, exam_anxiety_score = 9.5, study_efficiency = 5.75,
      screen_time_penalty = 12.5, study_environment = ''Library'',
      access_to_tutoring = ''No''\<rparr>"

definition submit_run :: env where
  "submit_run =
     \<lparr>artifact = Some (constant_model [1, 0]), image_asset = True, page = ''Prediction'',
      controls = moved_values, trigger = SubmitClick\<rparr>"

text \<open>The same run without the image file.\<close>

definition first_run_no_image :: env where
  "first_run_no_image = first_run\<lparr>image_asset := False\<rparr>"

subsection \<open>Runs that submit\<close>

text \<open>A run submits when the model was loaded, the Prediction page is selected and the
  click on the button started the run.\<close>

definition submits :: "env \<Rightarrow> bool" where
  "submits e = (artifact e \<noteq> None \<and> page e = ''Prediction'' \<and> trigger e = SubmitClick)"

subsection \<open>The selectors a run shows\<close>

definition radios :: "effect list \<Rightarrow> effect list" where
  "radios t = filter (\<lambda>x. case x of SidebarRadio _ _ \<Rightarrow> True | _ \<Rightarrow> False) t"

subsection \<open>A model that reads its table\<close>

text \<open>A model artifact whose answer depends on the table it is given: class 2 when the
  first cell of the first row (\<open>sleep_hours\<close>) is at least 8, class 0 otherwise.\<close>

definition sleep_model :: model where
  "sleep_model d =
     (case rows d of
        (Some (PyFloat x) # _) # _ \<Rightarrow> Inr [if 8 \<le> x then 2 else 0]
      | _ \<Rightarrow> Inl PredictError)"

subsection \<open>Sessions: what is kept from one run to the next\<close>

text \<open>
  The script calls every widget without \<^verbatim>\<open>key=\<close> and stores nothing in
  \<^verbatim>\<open>st.session_state\<close>, so its variables live for one run and the only memory between
  runs is Streamlit's own. Streamlit's rule for such a widget: its value is kept from one
  run to the next as long as each run calls the widget; a run that does not call it
  forgets the value, and the next run that calls it creates it anew, showing its default.
  The ten controls of the Prediction page are called together or not at all, so one
  entry holds their values: \<open>kept\<close> is \<open>None\<close> when the last run did not call them.
\<close>

fun is_control :: "effect \<Rightarrow> bool" where
  "is_control (FloatSlider _) = True"
| "is_control (IntSlider _) = True"
| "is_control (NumberInput _) = True"
| "is_control (Selectbox _) = True"
| "is_control (InColumn _ x) = is_control x"
| "is_control _ = False"

definition controls_called :: "effect list \<Rightarrow> bool" where
  "controls_called t = list_ex is_control t"

record ui =
  selection :: string                \<comment> \<open>what the radio holds\<close>
  kept :: "widget_values option"     \<comment> \<open>what the ten controls hold, if the last run called them\<close>

text \<open>What the controls show (and return) in the next run that calls them.\<close>

definition shown :: "ui \<Rightarrow> widget_values" where
  "shown u = (case kept u of None \<Rightarrow> default_values | Some w \<Rightarrow> w)"

text \<open>What the user can do between two runs: select a page, set the controls (when they
  are on the screen), click the submit button. Each starts a run.\<close>

datatype action = Select string | Move widget_values | Click

fun user :: "ui \<Rightarrow> action \<Rightarrow> ui \<times> trigger" where
  "user u (Select p) = (u\<lparr>selection := p\<rparr>, NavigationChange)"
| "user u (Move w) =
     ((case kept u of None \<Rightarrow> u | Some _ \<Rightarrow> u\<lparr>kept := Some w\<rparr>), ControlChange)"
| "user u Click = (u, SubmitClick)"

text \<open>The run an interface state leads to; the files on disk (the artifact \<open>a\<close>, the image
  \<open>img\<close>) are those of the session.\<close>

definition run_env :: "model option \<Rightarrow> bool \<Rightarrow> ui \<Rightarrow> trigger \<Rightarrow> env" where
  "run_env a img u t =
     \<lparr>artifact = a, image_asset = img, page = selection u, controls = shown u, trigger = t\<rparr>"

text \<open>What Streamlit holds after a run: the value of every widget the run called.\<close>

definition after_run :: "ui \<Rightarrow> env \<Rightarrow> ui" where
  "after_run u e =
     (let t = fst (app e)
      in \<lparr>selection = (if radios t = [] then radio_initial navigation_options else selection u),
          kept = (if controls_called t then Some (controls e) else None)\<rparr>)"

definition rerun :: "model option \<Rightarrow> bool \<Rightarrow> ui \<Rightarrow> action \<Rightarrow> ui" where
  "rerun a img u act = (let (u1, t) = user u act in after_run u1 (run_env a img u1 t))"

definition first_ui :: "model option \<Rightarrow> bool \<Rightarrow> ui" where
  "first_ui a img =
     (let u0 = \<lparr>selection = radio_initial navigation_options, kept = None\<rparr>
      in after_run u0 (run_env a img u0 FirstLoad))"

definition play :: "model option \<Rightarrow> bool \<Rightarrow> action list \<Rightarrow> ui" where
  "play a img acts = foldl (rerun a img) (first_ui a img) acts"

section \<open>Properties\<close>

subsection \<open>The script, branch by branch\<close>

lemma app_load_fails:
  "artifact e = None \<Longrightarrow> app e = ([JoblibLoad model_path], Some (LoadError model_path))"
  by (simp add: app_def)

lemma app_overview:
  "artifact e = Some m \<Longrightarrow> page e = ''Project Overview'' \<Longrightarrow>
   app e = (startup @ fst (overview_page e), snd (overview_page e))"
  by (simp add: app_def case_prod_beta)

lemma app_feature:
  "artifact e = Some m \<Longrightarrow> page e = ''Feature Explanation'' \<Longrightarrow>
   app e = (startup @ fst feature_explanation_page, snd feature_explanation_page)"
  by (simp add: app_def case_prod_beta)

lemma app_prediction:
  "artifact e = Some m \<Longrightarrow> page e = ''Prediction'' \<Longrightarrow>
   app e = (startup @ fst (prediction_page m e), snd (prediction_page m e))"
  by (simp add: app_def case_prod_beta)

lemma app_no_view:
  "artifact e = Some m \<Longrightarrow> page e \<noteq> ''Project Overview'' \<Longrightarrow>
   page e \<noteq> ''Feature Explanation'' \<Longrightarrow> page e \<noteq> ''Prediction'' \<Longrightarrow>
   app e = (startup, None)"
  by (simp add: app_def)

lemma predictions_append: "predictions (xs @ ys) = predictions xs @ predictions ys"
  by (simp add: predictions_def)

lemma predictions_startup: "predictions startup = []"
  by (simp add: predictions_def startup_def)

lemma predictions_overview: "predictions (fst (overview_page e)) = []"
  by (simp add: predictions_def overview_page_def overview_after_image_def)

lemma predictions_feature: "predictions (fst feature_explanation_page) = []"
  by (simp add: predictions_def feature_explanation_page_def)

lemma predictions_form: "predictions prediction_form = []"
  by (simp add: predictions_def prediction_form_def)

lemma predictions_prediction_page:
  "predictions (fst (prediction_page m e)) =
     (if trigger e = SubmitClick then [input_data (controls e)] else [])"
  by (simp add: prediction_page_def st_button_def predictions_append predictions_form
      split: sum.split)
     (simp add: predictions_def)

lemma predictions_app:
  "predictions (fst (app e)) =
     (if artifact e \<noteq> None \<and> page e = ''Prediction'' \<and> trigger e = SubmitClick
      then [input_data (controls e)] else [])"
proof (cases "artifact e")
  case None
  then show ?thesis by (simp add: app_load_fails predictions_def)
next
  case (Some m)
  consider (o) "page e = ''Project Overview''" | (f) "page e = ''Feature Explanation''"
    | (p) "page e = ''Prediction''"
    | (n) "page e \<noteq> ''Project Overview''" "page e \<noteq> ''Feature Explanation''"
        "page e \<noteq> ''Prediction''"
    by blast
  then show ?thesis
  proof cases
    case o
    with Some show ?thesis
      by (simp add: app_overview predictions_append predictions_startup predictions_overview)
  next
    case f
    with Some show ?thesis
      by (simp add: app_feature predictions_append predictions_startup predictions_feature)
  next
    case p
    with Some show ?thesis
      by (simp add: app_prediction predictions_append predictions_startup
          predictions_prediction_page)
  next
    case n
    with Some show ?thesis
      by (simp add: app_no_view predictions_startup)
  qed
qed

lemma predictions_session:
  "predictions (session es) = map (\<lambda>e. input_data (controls e)) (filter submits es)"
proof (induction es)
  case Nil
  show ?case by (simp add: session_def predictions_def)
next
  case (Cons e es)
  have "session (e # es) = fst (app e) @ session es"
    by (simp add: session_def)
  with Cons show ?case
    by (simp add: predictions_append predictions_app submits_def)
qed

subsection \<open>Counting the loads of the model\<close>

lemma loads_append: "loads (xs @ ys) = loads xs + loads ys"
  by (simp add: loads_def)

lemma loads_startup: "loads startup = 1"
  by (simp add: loads_def startup_def)

lemma loads_overview: "loads (fst (overview_page e)) = 0"
  by (simp add: loads_def overview_page_def overview_after_image_def)

lemma loads_feature: "loads (fst feature_explanation_page) = 0"
  by (simp add: loads_def feature_explanation_page_def)

lemma loads_prediction_page: "loads (fst (prediction_page m e)) = 0"
  by (simp add: prediction_page_def loads_def prediction_form_def split: sum.split)

lemma loads_app: "loads (fst (app e)) = 1"
proof (cases "artifact e")
  case None
  then show ?thesis by (simp add: app_load_fails loads_def)
next
  case (Some m)
  consider (o) "page e = ''Project Overview''" | (f) "page e = ''Feature Explanation''"
    | (p) "page e = ''Prediction''"
    | (n) "page e \<noteq> ''Project Overview''" "page e \<noteq> ''Feature Explanation''"
        "page e \<noteq> ''Prediction''"
    by blast
  then show ?thesis
  proof cases
    case o
    with Some show ?thesis by (simp add: app_overview loads_append loads_startup loads_overview)
  next
    case f
    with Some show ?thesis by (simp add: app_feature loads_append loads_startup loads_feature)
  next
    case p
    with Some show ?thesis
      by (simp add: app_prediction loads_append loads_startup loads_prediction_page)
  next
    case n
    with Some show ?thesis by (simp add: app_no_view loads_startup)
  qed
qed

lemma loads_session: "loads (session es) = length es"
proof (induction es)
  case Nil
  show ?case by (simp add: session_def loads_def)
next
  case (Cons e es)
  have "session (e # es) = fst (app e) @ session es"
    by (simp add: session_def)
  with Cons show ?case by (simp add: loads_append loads_app)
qed

lemma hd_app: "hd (fst (app e)) = JoblibLoad model_path"
  by (cases "artifact e") (simp_all add: app_def case_prod_beta startup_def)

subsection \<open>The concrete runs\<close>

lemma first_run_facts:
  "artifact first_run = Some (constant_model [2])" "image_asset first_run"
  "page first_run = ''Project Overview''" "controls first_run = default_values"
  "trigger first_run = FirstLoad"
  by (simp_all add: first_run_def radio_initial_def navigation_options_def)

lemma first_run_no_image_facts:
  "artifact first_run_no_image = Some (constant_model [2])" "\<not> image_asset first_run_no_image"
  "page first_run_no_image = ''Project Overview''"
  by (simp_all add: first_run_no_image_def first_run_facts)

lemma submit_run_facts:
  "artifact submit_run = Some (constant_model [1, 0])" "image_asset submit_run"
  "page submit_run = ''Prediction''" "controls submit_run = moved_values"
  "trigger submit_run = SubmitClick"
  by (simp_all add: submit_run_def)

subsection \<open>The image file matters to the Overview page only\<close>

lemma prediction_page_ignores_image:
  "prediction_page m (e\<lparr>image_asset := b\<rparr>) = prediction_page m e"
  by (simp add: prediction_page_def split: sum.split)

lemma app_ignores_image:
  assumes "page e \<noteq> ''Project Overview''"
  shows "app (e\<lparr>image_asset := b\<rparr>) = app e"
proof (cases "artifact e")
  case None
  then show ?thesis by (simp add: app_load_fails)
next
  case (Some m)
  then have a: "artifact (e\<lparr>image_asset := b\<rparr>) = Some m" by simp
  consider (f) "page e = ''Feature Explanation''" | (p) "page e = ''Prediction''"
    | (n) "page e \<noteq> ''Feature Explanation''" "page e \<noteq> ''Prediction''"
    by blast
  then show ?thesis
  proof cases
    case f
    with Some a show ?thesis by (simp add: app_feature)
  next
    case p
    with Some a show ?thesis by (simp add: app_prediction prediction_page_ignores_image)
  next
    case n
    with Some a assms show ?thesis by (simp add: app_no_view)
  qed
qed

subsection \<open>The table handed to the model\<close>

lemma input_data_columns:
  "columns (input_data w) =
     [''sleep_hours'', ''exercise_frequency'', ''stress_level'', ''screen_time'',
      ''study_environment'', ''access_to_tutoring'', ''motivation_level'',
      ''exam_anxiety_score'', ''study_efficiency'', ''screen_time_penalty'']"
  by (simp add: input_data_def DataFrame_of_records_def input_record_def)

lemma input_data_rows:
  "rows (input_data w) =
     [[Some (PyFloat (sleep_hours w)), Some (PyInt (exercise_frequency w)),
       Some (PyFloat (stress_level w)), Some (PyFloat (screen_time w)),
       Some (PyStr (study_environment w)), Some (PyStr (access_to_tutoring w)),
       Some (PyInt (motivation_level w)), Some (PyFloat (exam_anxiety_score w)),
       Some (PyFloat (study_efficiency w)), Some (PyFloat (screen_time_penalty w))]]"
  by (simp add: input_data_def DataFrame_of_records_def input_record_def)

subsection \<open>The glossary table\<close>

lemma feature_info_keys:
  "map fst feature_info =
     [''sleep_hours'', ''exercise_frequency'', ''stress_level'', ''screen_time'',
      ''study_environment'', ''access_to_tutoring'', ''motivation_level'',
      ''exam_anxiety_score'', ''study_efficiency'', ''screen_time_penalty'']"
  by (simp add: feature_info_def)

lemma DataFrame_of_items_shape:
  "columns (DataFrame_of_items items cols) = cols"
  "length (rows (DataFrame_of_items items cols)) = length items"
  "map hd (rows (DataFrame_of_items items cols)) = map (\<lambda>k. Some (PyStr k)) (map fst items)"
  "r \<in> set (rows (DataFrame_of_items items cols)) \<Longrightarrow> length r = 2"
  by (auto simp add: DataFrame_of_items_def)

subsection \<open>What each control returns\<close>

lemma sleep_hours_in_domain:
  "float_slider_returns sleep_hours_slider x \<Longrightarrow> declared_domain ''sleep_hours'' (PyFloat x)"
  by (simp add: float_slider_returns_def sleep_hours_slider_def declared_domain_def)

lemma exercise_frequency_in_domain:
  "int_slider_returns exercise_frequency_slider i \<Longrightarrow>
   declared_domain ''exercise_frequency'' (PyInt i)"
  by (simp add: int_slider_returns_def exercise_frequency_slider_def declared_domain_def)

lemma stress_level_in_domain:
  "float_slider_returns stress_level_slider x \<Longrightarrow> declared_domain ''stress_level'' (PyFloat x)"
  by (simp add: float_slider_returns_def stress_level_slider_def declared_domain_def)

lemma screen_time_in_domain:
  "float_slider_returns screen_time_slider x \<Longrightarrow> declared_domain ''screen_time'' (PyFloat x)"
  by (simp add: float_slider_returns_def screen_time_slider_def declared_domain_def)

lemma motivation_level_in_domain:
  "int_slider_returns motivation_level_slider i \<Longrightarrow>
   declared_domain ''motivation_level'' (PyInt i)"
  by (simp add: int_slider_returns_def motivation_level_slider_def declared_domain_def)

lemma exam_anxiety_score_in_domain:
  assumes "float_slider_returns exam_anxiety_score_slider x"
  shows "declared_domain ''exam_anxiety_score'' (PyFloat x)"
proof -
  from assms have "5 \<le> x \<and> x \<le> 10 \<and> (\<exists>n. x * 2 - 10 = rat_of_int n)"
    by (simp add: float_slider_returns_def exam_anxiety_score_slider_def)
  then obtain n where b: "5 \<le> x" "x \<le> 10" and n: "x * 2 - 10 = rat_of_int n"
    by blast
  from n have "x * 2 = rat_of_int (n + 10)"
    by simp
  then have "\<exists>k. x * 2 = rat_of_int k" ..
  with b show ?thesis
    by (simp add: declared_domain_def)
qed

lemma study_efficiency_in_domain:
  "number_input_returns study_efficiency_input x \<Longrightarrow>
   declared_domain ''study_efficiency'' (PyFloat x)"
  by (simp add: number_input_returns_def study_efficiency_input_def declared_domain_def)

lemma screen_time_penalty_in_domain:
  "number_input_returns screen_time_penalty_input x \<Longrightarrow>
   declared_domain ''screen_time_penalty'' (PyFloat x)"
  by (simp add: number_input_returns_def screen_time_penalty_input_def declared_domain_def)

lemma study_environment_in_domain:
  "selectbox_returns study_environment_select s \<Longrightarrow>
   declared_domain ''study_environment'' (PyStr s)"
  by (simp add: selectbox_returns_def study_environment_select_def declared_domain_def)

lemma access_to_tutoring_in_domain:
  "selectbox_returns access_to_tutoring_select s \<Longrightarrow>
   declared_domain ''access_to_tutoring'' (PyStr s)"
  by (simp add: selectbox_returns_def access_to_tutoring_select_def declared_domain_def)

subsection \<open>The title and the selector of each page\<close>

lemma titles_distinct:
  "overview_title \<noteq> feature_title" "overview_title \<noteq> prediction_title"
  "feature_title \<noteq> prediction_title"
  by (simp_all add: overview_title_def feature_title_def prediction_title_def)

lemma title_startup: "Title t \<notin> set startup"
  by (simp add: startup_def)

lemma title_overview:
  "Title t \<in> set (fst (overview_page e)) \<longleftrightarrow> t = overview_title"
  by (auto simp add: overview_page_def overview_after_image_def)

lemma title_feature:
  "Title t \<in> set (fst feature_explanation_page) \<longleftrightarrow> t = feature_title"
  by (auto simp add: feature_explanation_page_def)

lemma title_prediction:
  "Title t \<in> set (fst (prediction_page m e)) \<longleftrightarrow> t = prediction_title"
  by (auto simp add: prediction_page_def prediction_form_def split: sum.split)

lemma radios_append: "radios (xs @ ys) = radios xs @ radios ys"
  by (simp add: radios_def)

lemma radios_startup: "radios startup = [SidebarRadio ''Navigation'' navigation_options]"
  by (simp add: radios_def startup_def)

lemma radios_overview: "radios (fst (overview_page e)) = []"
  by (simp add: radios_def overview_page_def overview_after_image_def)

lemma radios_feature: "radios (fst feature_explanation_page) = []"
  by (simp add: radios_def feature_explanation_page_def)

lemma radios_prediction_page: "radios (fst (prediction_page m e)) = []"
  by (simp add: prediction_page_def radios_def prediction_form_def split: sum.split)

lemma radios_app:
  assumes "artifact e = Some m"
  shows "radios (fst (app e)) = [SidebarRadio ''Navigation'' navigation_options]"
proof -
  consider (o) "page e = ''Project Overview''" | (f) "page e = ''Feature Explanation''"
    | (p) "page e = ''Prediction''"
    | (n) "page e \<noteq> ''Project Overview''" "page e \<noteq> ''Feature Explanation''"
        "page e \<noteq> ''Prediction''"
    by blast
  then show ?thesis
  proof cases
    case o
    with assms show ?thesis
      by (simp add: app_overview radios_append radios_startup radios_overview)
  next
    case f
    with assms show ?thesis
      by (simp add: app_feature radios_append radios_startup radios_feature)
  next
    case p
    with assms show ?thesis
      by (simp add: app_prediction radios_append radios_startup radios_prediction_page)
  next
    case n
    with assms show ?thesis by (simp add: app_no_view radios_startup)
  qed
qed

lemma one_title:
  assumes "artifact e = Some m" and "page e \<in> set navigation_options"
  shows "filter (\<lambda>t. Title t \<in> set (fst (app e)))
           [overview_title, feature_title, prediction_title] =
         [if page e = ''Project Overview'' then overview_title
          else if page e = ''Feature Explanation'' then feature_title
          else prediction_title]"
proof -
  from assms(2) consider (o) "page e = ''Project Overview''"
    | (f) "page e = ''Feature Explanation''" | (p) "page e = ''Prediction''"
    by (auto simp add: navigation_options_def)
  then show ?thesis
  proof cases
    case o
    with assms(1) show ?thesis
      using titles_distinct by (simp add: app_overview title_startup title_overview)
  next
    case f
    with assms(1) show ?thesis
      using titles_distinct by (simp add: app_feature title_startup title_feature)
  next
    case p
    with assms(1) show ?thesis
      using titles_distinct by (simp add: app_prediction title_startup title_prediction)
  qed
qed

subsection \<open>Which runs call the controls\<close>

lemma controls_called_append:
  "controls_called (xs @ ys) \<longleftrightarrow> controls_called xs \<or> controls_called ys"
  by (simp add: controls_called_def)

lemma controls_called_startup: "\<not> controls_called startup"
  by (simp add: controls_called_def startup_def)

lemma controls_called_overview: "\<not> controls_called (fst (overview_page e))"
  by (simp add: controls_called_def overview_page_def overview_after_image_def)

lemma controls_called_feature: "\<not> controls_called (fst feature_explanation_page)"
  by (simp add: controls_called_def feature_explanation_page_def)

lemma controls_called_form: "controls_called prediction_form"
  by (simp add: controls_called_def prediction_form_def)

lemma controls_called_prediction_page: "controls_called (fst (prediction_page m e))"
  by (simp add: prediction_page_def controls_called_append controls_called_form
      split: sum.split)

lemma controls_called_app:
  "controls_called (fst (app e)) \<longleftrightarrow> artifact e \<noteq> None \<and> page e = ''Prediction''"
proof (cases "artifact e")
  case None
  then show ?thesis by (simp add: app_load_fails controls_called_def)
next
  case (Some m)
  consider (o) "page e = ''Project Overview''" | (f) "page e = ''Feature Explanation''"
    | (p) "page e = ''Prediction''"
    | (n) "page e \<noteq> ''Project Overview''" "page e \<noteq> ''Feature Explanation''"
        "page e \<noteq> ''Prediction''"
    by blast
  then show ?thesis
  proof cases
    case o
    with Some show ?thesis
      by (simp add: app_overview controls_called_append controls_called_startup
          controls_called_overview)
  next
    case f
    with Some show ?thesis
      by (simp add: app_feature controls_called_append controls_called_startup
          controls_called_feature)
  next
    case p
    with Some show ?thesis
      by (simp add: app_prediction controls_called_append controls_called_prediction_page)
  next
    case n
    with Some show ?thesis by (simp add: app_no_view controls_called_startup)
  qed
qed

subsection \<open>One step of a session\<close>

lemma after_run_loaded:
  "after_run u (run_env (Some m) img u t) =
     \<lparr>selection = selection u,
      kept = (if selection u = ''Prediction'' then Some (shown u) else None)\<rparr>"
  by (simp add: after_run_def Let_def run_env_def controls_called_app
      radios_app [of _ m])

lemma rerun_Select:
  "rerun (Some m) img u (Select p) =
     \<lparr>selection = p,
      kept = (if p = ''Prediction'' then Some (shown u) else None)\<rparr>"
  by (simp add: rerun_def after_run_loaded shown_def)

lemma rerun_Click:
  "rerun (Some m) img u Click =
     \<lparr>selection = selection u,
      kept = (if selection u = ''Prediction'' then Some (shown u) else None)\<rparr>"
  by (simp add: rerun_def after_run_loaded)

lemma rerun_Move:
  "rerun (Some m) img u (Move w) =
     \<lparr>selection = selection u,
      kept = (if selection u = ''Prediction''
              then Some (case kept u of None \<Rightarrow> default_values | Some _ \<Rightarrow> w)
              else None)\<rparr>"
  by (cases "kept u") (simp_all add: rerun_def after_run_loaded shown_def)

lemma first_ui_loaded:
  "first_ui (Some m) img = \<lparr>selection = ''Project Overview'', kept = None\<rparr>"
  by (simp add: first_ui_def Let_def after_run_loaded)
     (simp add: radio_initial_def navigation_options_def)

lemma moved_values_not_default: "moved_values \<noteq> default_values"
proof
  assume "moved_values = default_values"
  then have "exercise_frequency moved_values = exercise_frequency default_values"
    by simp
  then show False
    by (simp add: moved_values_def default_values_def exercise_frequency_slider_def)
qed

subsection \<open>A run that submits\<close>

lemma sleep_model_input_data:
  "sleep_model (input_data w) = Inr [if 8 \<le> sleep_hours w then 2 else 0]"
  by (simp add: sleep_model_def input_data_rows)

lemma app_submit:
  assumes "submits e" and "artifact e = Some m"
  shows "app e =
     (case m (input_data (controls e)) of
        Inl err \<Rightarrow>
          (startup @ prediction_form @ [Predict (input_data (controls e))], Some err)
      | Inr [] \<Rightarrow>
          (startup @ prediction_form @ [Predict (input_data (controls e))], Some IndexError)
      | Inr (y # ys) \<Rightarrow>
          (startup @ prediction_form @
             [Predict (input_data (controls e)),
              Success (success_message (prediction_label y))],
           None))"
  using assms
  by (simp add: submits_def app_prediction prediction_page_def st_button_def
      first_prediction_def split: sum.split list.split)

subsection \<open>The rows of the glossary table\<close>

lemma df_features_rows:
  "rows df_features = map (\<lambda>(k, d). [Some (PyStr k), Some (PyStr d)]) feature_info"
  by (simp add: df_features_def DataFrame_of_items_def)

lemma df_features_table:
  "rows df_features =
     [[Some (PyStr ''sleep_hours''),
       Some (PyStr (''Average number of hours the student sleeps per day. Adequate sleep improves focus, memory, and academic performance.''))],
      [Some (PyStr ''exercise_frequency''),
       Some (PyStr (''Number of times the student exercises per week. Regular exercise is linked to better mental health and concentration.''))],
      [Some (PyStr ''stress_level''),
       Some (PyStr (''Measures the student'' @ [CHR 0x27] @ ''s stress level on a scale from 1 to 10. Higher stress often negatively impacts academic outcomes.''))],
      [Some (PyStr ''screen_time''),
       Some (PyStr (''Total daily screen time in hours. Excessive screen usage may reduce study time and sleep quality.''))],
      [Some (PyStr ''study_environment''),
       Some (PyStr (''The environment where the student usually studies (e.g., quiet room, library). A better environment enhances productivity.''))],
      [Some (PyStr ''access_to_tutoring''),
       Some (PyStr (''Indicates whether the student has access to additional tutoring or academic support.''))],
      [Some (PyStr ''motivation_level''),
       Some (PyStr (''Represents how motivated the student is to study, rated from 1 to 10. Higher motivation usually leads to better performance.''))],
      [Some (PyStr ''exam_anxiety_score''),
       Some (PyStr (''Measures anxiety level before exams. High anxiety can reduce exam performance despite good preparation.''))],
      [Some (PyStr ''study_efficiency''),
       Some (PyStr (''Represents how effectively the student studies within a given time. Higher values indicate better focus and learning quality.''))],
      [Some (PyStr ''screen_time_penalty''),
       Some (PyStr (''Quantifies the negative impact of excessive screen time on academic performance.''))]]"
  by (simp add: df_features_rows feature_info_def)

section \<open>The claims\<close>

subsection \<open>C1: the class-to-label mapping\<close>

lemma class_mapping_simps:
  "class_mapping 0 = Some ([CHR 0xE2, CHR 0x9D, CHR 0x8C] @ '' At Risk'')"
  "class_mapping 1 =
     Some ([CHR 0xE2, CHR 0x9A, CHR 0xA0, CHR 0xEF, CHR 0xB8, CHR 0x8F] @ '' Average'')"
  "class_mapping 2 = Some ([CHR 0xE2, CHR 0x9C, CHR 0x85] @ '' High Performer'')"
  "p \<noteq> 0 \<Longrightarrow> p \<noteq> 1 \<Longrightarrow> p \<noteq> 2 \<Longrightarrow> class_mapping p = None"
  by (simp_all add: class_mapping_def)

text \<open>
  C1 (as amended). The mapping from the model's integer output to the label is total:
  0 maps to the cross mark U+274C followed by \<open>'' At Risk''\<close>, 1 to the warning sign
  U+26A0 U+FE0F followed by \<open>'' Average''\<close>, 2 to the check mark U+2705 followed by
  \<open>'' High Performer''\<close>, and every other integer to the literal \<open>''Unknown''\<close>. The
  labels of the three classes carry their emoji prefix; only the fallback is plain text.
\<close>

theorem class_label_total:
  "prediction_label p =
     (if p = 0 then [CHR 0xE2, CHR 0x9D, CHR 0x8C] @ '' At Risk''
      else if p = 1 then
        [CHR 0xE2, CHR 0x9A, CHR 0xA0, CHR 0xEF, CHR 0xB8, CHR 0x8F] @ '' Average''
      else if p = 2 then [CHR 0xE2, CHR 0x9C, CHR 0x85] @ '' High Performer''
      else ''Unknown'')"
  by (simp add: prediction_label_def dict_get_def class_mapping_simps)

text \<open>C1 as stated fails at 0: the label of class 0 is not the plain string
  \<open>''At Risk''\<close>.\<close>

theorem class_label_plain_counterexample:
  "prediction_label 0 \<noteq> ''At Risk''"
  by (simp add: prediction_label_def dict_get_def class_mapping_simps)

subsection \<open>C2: the Overview page without its image file\<close>

text \<open>
  C2 (as amended). When the image file is missing, a run of the Overview page ends at
  \<^verbatim>\<open>Image.open\<close> with its exception: the title has been rendered, and nothing after it is
  (no image, no metrics, no text). The image file is opened by the Overview page only:
  a run of any other page is the same whether the file is there or not.
\<close>

theorem overview_without_image:
  "(artifact e = Some m \<and> page e = ''Project Overview'' \<and> \<not> image_asset e \<longrightarrow>
      app e = (startup @ [Title overview_title, ImageOpen image_path],
               Some (FileNotFoundError image_path))) \<and>
   (page e \<noteq> ''Project Overview'' \<longrightarrow> app (e\<lparr>image_asset := b\<rparr>) = app e)"
proof (intro conjI impI)
  assume "artifact e = Some m \<and> page e = ''Project Overview'' \<and> \<not> image_asset e"
  then show "app e = (startup @ [Title overview_title, ImageOpen image_path],
      Some (FileNotFoundError image_path))"
    by (simp add: app_overview overview_page_def)
next
  assume "page e \<noteq> ''Project Overview''"
  then show "app (e\<lparr>image_asset := b\<rparr>) = app e"
    by (rule app_ignores_image)
qed

text \<open>The witness of C2: the first run of a session without the image file, and a submit
  on the Prediction page.\<close>

theorem overview_without_image_witness:
  "artifact first_run_no_image = Some (constant_model [2]) \<and>
   page first_run_no_image = ''Project Overview'' \<and> \<not> image_asset first_run_no_image \<and>
   app first_run_no_image =
     (startup @ [Title overview_title, ImageOpen image_path],
      Some (FileNotFoundError image_path)) \<and>
   page submit_run \<noteq> ''Project Overview'' \<and>
   app (submit_run\<lparr>image_asset := False\<rparr>) = app submit_run"
  using overview_without_image [of first_run_no_image "constant_model [2]"]
    overview_without_image [of submit_run _ False]
  by (simp add: first_run_no_image_facts submit_run_facts)

text \<open>C2 as stated fails on the first run without the image file: the run ends with the
  exception, and neither of the two metrics nor the text is among what it rendered.\<close>

theorem overview_without_image_counterexample:
  "snd (app first_run_no_image) = Some (FileNotFoundError image_path) \<and>
   InColumn 1 (Metric ''Number of Rows'' ([CHR 0xE2, CHR 0x89, CHR 0x88] @ '' 82,000''))
     \<notin> set (fst (app first_run_no_image)) \<and>
   InColumn 2 (Metric ''Number of Features'' ''31'') \<notin> set (fst (app first_run_no_image)) \<and>
   Markdown overview_text \<notin> set (fst (app first_run_no_image))"
  by (simp add: app_overview [OF first_run_no_image_facts(1) first_run_no_image_facts(3)]
      overview_page_def first_run_no_image_facts startup_def)

subsection \<open>C3: the controls across navigation\<close>

text \<open>
  C3 (as amended). Navigating away from the Prediction view discards the values of its
  input controls: a run of another view does not call them, so nothing is kept of them,
  and when the Prediction view is selected again every control shows its default value.
  A control shows its last-set value only from one run of the Prediction view to the next
  run of the Prediction view: after the user sets the controls, after a click on the
  submit button, and after the Prediction view is selected while it is the selected view.
\<close>

theorem controls_reset_on_revisit:
  "(p \<noteq> ''Prediction'' \<longrightarrow> kept (rerun (Some m) img u (Select p)) = None) \<and>
   (p \<noteq> ''Prediction'' \<longrightarrow>
      shown (rerun (Some m) img (rerun (Some m) img u (Select p)) (Select ''Prediction'')) =
        default_values) \<and>
   (selection u = ''Prediction'' \<and> kept u = Some w \<longrightarrow>
      shown (rerun (Some m) img u (Move w')) = w' \<and>
      shown (rerun (Some m) img u Click) = w \<and>
      shown (rerun (Some m) img u (Select ''Prediction'')) = w)"
  by (simp add: rerun_Select rerun_Click rerun_Move shown_def)

text \<open>The witness of C3: leaving the Prediction view with every control moved and coming
  back; and setting the controls, then clicking, while the view stays.\<close>

theorem controls_reset_on_revisit_witness:
  "''Feature Explanation'' \<noteq> ''Prediction'' \<and>
   kept (rerun (Some (constant_model [2])) True
           \<lparr>selection = ''Prediction'', kept = Some moved_values\<rparr>
           (Select ''Feature Explanation'')) = None \<and>
   shown (rerun (Some (constant_model [2])) True
            (rerun (Some (constant_model [2])) True
               \<lparr>selection = ''Prediction'', kept = Some moved_values\<rparr>
               (Select ''Feature Explanation''))
            (Select ''Prediction'')) = default_values \<and>
   selection \<lparr>selection = ''Prediction'', kept = Some default_values\<rparr> = ''Prediction'' \<and>
   kept \<lparr>selection = ''Prediction'', kept = Some default_values\<rparr> = Some default_values \<and>
   shown (rerun (Some (constant_model [2])) True
            \<lparr>selection = ''Prediction'', kept = Some default_values\<rparr> (Move moved_values)) =
     moved_values \<and>
   shown (rerun (Some (constant_model [2])) True
            \<lparr>selection = ''Prediction'', kept = Some default_values\<rparr> Click) =
     default_values"
  using controls_reset_on_revisit
      [of "''Feature Explanation''" "constant_model [2]" True
        "\<lparr>selection = ''Prediction'', kept = Some moved_values\<rparr>"]
    controls_reset_on_revisit
      [of _ "constant_model [2]" True
        "\<lparr>selection = ''Prediction'', kept = Some default_values\<rparr>" default_values
        moved_values]
  by simp

text \<open>C3 as stated fails on the session that selects the Prediction view, moves every
  control, selects the Feature Explanation view and selects the Prediction view again:
  the controls showed the moved values before leaving and do not show them on return.\<close>

theorem controls_reset_on_revisit_counterexample:
  "shown (play (Some (constant_model [2])) True
            [Select ''Prediction'', Move moved_values]) = moved_values \<and>
   shown (play (Some (constant_model [2])) True
            [Select ''Prediction'', Move moved_values, Select ''Feature Explanation'',
             Select ''Prediction'']) \<noteq> moved_values"
  using moved_values_not_default
  by (simp add: play_def first_ui_loaded rerun_Select rerun_Move shown_def)

subsection \<open>C4: the controls stay within the declared domains\<close>

text \<open>
  C4. For each of the ten attributes, every value its control can return lies within the
  domain the data model declares for it: \<open>sleep_hours\<close> in [4.0, 12.0],
  \<open>exercise_frequency\<close> in [0, 7], \<open>stress_level\<close> in [1.0, 10.0], \<open>screen_time\<close> in
  [0.3, 21.0], \<open>motivation_level\<close> in [1, 10], \<open>exam_anxiety_score\<close> in [5.0, 10.0] on the
  grid of step 0.5, \<open>study_efficiency\<close> in [0.0, 5.75], \<open>screen_time_penalty\<close> in
  [0.0, 90.0], \<open>study_environment\<close> one of the five listed strings, \<open>access_to_tutoring\<close>
  one of \<open>Yes\<close> and \<open>No\<close>. So when the ten controls return what they can return, every one
  of the ten values of the record, which are the cells of the one row handed to the
  model, is within its declared domain.
\<close>

theorem controls_within_declared_domain:
  "(float_slider_returns sleep_hours_slider sh \<longrightarrow>
      declared_domain ''sleep_hours'' (PyFloat sh)) \<and>
   (int_slider_returns exercise_frequency_slider ef \<longrightarrow>
      declared_domain ''exercise_frequency'' (PyInt ef)) \<and>
   (float_slider_returns stress_level_slider sl \<longrightarrow>
      declared_domain ''stress_level'' (PyFloat sl)) \<and>
   (float_slider_returns screen_time_slider sc \<longrightarrow>
      declared_domain ''screen_time'' (PyFloat sc)) \<and>
   (int_slider_returns motivation_level_slider ml \<longrightarrow>
      declared_domain ''motivation_level'' (PyInt ml)) \<and>
   (float_slider_returns exam_anxiety_score_slider ea \<longrightarrow>
      declared_domain ''exam_anxiety_score'' (PyFloat ea)) \<and>
   (number_input_returns study_efficiency_input se \<longrightarrow>
      declared_domain ''study_efficiency'' (PyFloat se)) \<and>
   (number_input_returns screen_time_penalty_input sp \<longrightarrow>
      declared_domain ''screen_time_penalty'' (PyFloat sp)) \<and>
   (selectbox_returns study_environment_select sv \<longrightarrow>
      declared_domain ''study_environment'' (PyStr sv)) \<and>
   (selectbox_returns access_to_tutoring_select tu \<longrightarrow>
      declared_domain ''access_to_tutoring'' (PyStr tu)) \<and>
   (controls_return w \<longrightarrow>
      length (input_record w) = 10 \<and>
      (\<forall>(a, v) \<in> set (input_record w). declared_domain a v) \<and>
      rows (input_data w) = [map (\<lambda>(a, v). Some v) (input_record w)])"
proof -
  have "\<forall>(a, v) \<in> set (input_record w). declared_domain a v" if "controls_return w"
    using that
    by (simp add: controls_return_def input_record_def sleep_hours_in_domain
        exercise_frequency_in_domain stress_level_in_domain screen_time_in_domain
        motivation_level_in_domain exam_anxiety_score_in_domain study_efficiency_in_domain
        screen_time_penalty_in_domain study_environment_in_domain
        access_to_tutoring_in_domain)
  moreover have "length (input_record w) = 10"
    by (simp add: input_record_def)
  moreover have "rows (input_data w) = [map (\<lambda>(a, v). Some v) (input_record w)]"
    by (simp add: input_data_rows) (simp add: input_record_def)
  ultimately show ?thesis
    by (simp add: sleep_hours_in_domain
        exercise_frequency_in_domain stress_level_in_domain screen_time_in_domain
        motivation_level_in_domain exam_anxiety_score_in_domain study_efficiency_in_domain
        screen_time_penalty_in_domain study_environment_in_domain
        access_to_tutoring_in_domain)
qed

text \<open>The witness of C4: each control at an end of its range, and the record of a submit
  with every control moved.\<close>

theorem controls_within_declared_domain_witness:
  "float_slider_returns sleep_hours_slider 12 \<and> declared_domain ''sleep_hours'' (PyFloat 12) \<and>
   int_slider_returns exercise_frequency_slider 7 \<and>
   declared_domain ''exercise_frequency'' (PyInt 7) \<and>
   float_slider_returns stress_level_slider 1 \<and> declared_domain ''stress_level'' (PyFloat 1) \<and>
   float_slider_returns screen_time_slider 21 \<and> declared_domain ''screen_time'' (PyFloat 21) \<and>
   int_slider_returns motivation_level_slider 1 \<and>
   declared_domain ''motivation_level'' (PyInt 1) \<and>
   float_slider_returns exam_anxiety_score_slider 5.5 \<and>
   declared_domain ''exam_anxiety_score'' (PyFloat 5.5) \<and>
   number_input_returns study_efficiency_input 5.75 \<and>
   declared_domain ''study_efficiency'' (PyFloat 5.75) \<and>
   number_input_returns screen_time_penalty_input 90 \<and>
   declared_domain ''screen_time_penalty'' (PyFloat 90) \<and>
   selectbox_returns study_environment_select ''Cafe'' \<and>
   declared_domain ''study_environment'' (PyStr ''Cafe'') \<and>
   selectbox_returns access_to_tutoring_select ''No'' \<and>
   declared_domain ''access_to_tutoring'' (PyStr ''No'') \<and>
   controls_return moved_values \<and>
   list_all (\<lambda>(a, v). declared_domain a v) (input_record moved_values)"
proof -
  have c:
    "float_slider_returns sleep_hours_slider 12"
    "int_slider_returns exercise_frequency_slider 7"
    "float_slider_returns stress_level_slider 1"
    "float_slider_returns screen_time_slider 21"
    "int_slider_returns motivation_level_slider 1"
    "float_slider_returns exam_anxiety_score_slider 5.5"
    "number_input_returns study_efficiency_input 5.75"
    "number_input_returns screen_time_penalty_input 90"
    "selectbox_returns study_environment_select ''Cafe''"
    "selectbox_returns access_to_tutoring_select ''No''"
    by (simp_all add: float_slider_returns_def int_slider_returns_def number_input_returns_def
        selectbox_returns_def sleep_hours_slider_def exercise_frequency_slider_def
        stress_level_slider_def screen_time_slider_def motivation_level_slider_def
        exam_anxiety_score_slider_def study_efficiency_input_def
        screen_time_penalty_input_def study_environment_select_def
        access_to_tutoring_select_def)
  have w: "controls_return moved_values"
    by (simp add: controls_return_def moved_values_def
        float_slider_returns_def int_slider_returns_def number_input_returns_def
        selectbox_returns_def sleep_hours_slider_def exercise_frequency_slider_def
        stress_level_slider_def screen_time_slider_def motivation_level_slider_def
        exam_anxiety_score_slider_def study_efficiency_input_def
        screen_time_penalty_input_def study_environment_select_def
        access_to_tutoring_select_def)
  show ?thesis
    using c w
      controls_within_declared_domain
        [of 12 7 1 21 1 "5.5" "5.75" 90 "''Cafe''" "''No''" moved_values]
    by (simp add: list_all_iff)
qed

subsection \<open>C5: when inference is invoked\<close>

text \<open>
  C5. A run that was not started by a click on the submit button (the first load, a
  navigation change, a change of a control) calls \<^verbatim>\<open>model.predict\<close> never, and so does
  every run of a page other than Prediction; a run that submits calls it exactly once;
  over a whole session there are exactly as many calls as runs that submit.
\<close>

theorem inference_only_on_submit:
  "(trigger e \<noteq> SubmitClick \<longrightarrow> predictions (fst (app e)) = []) \<and>
   (page e \<noteq> ''Prediction'' \<longrightarrow> predictions (fst (app e)) = []) \<and>
   (submits e \<longrightarrow> length (predictions (fst (app e))) = 1) \<and>
   length (predictions (session es)) = length (filter submits es)"
  by (simp add: predictions_app predictions_session submits_def)

text \<open>The witness of C5: a first load, a submit, and a session with two submits.\<close>

theorem inference_only_on_submit_witness:
  "trigger first_run \<noteq> SubmitClick \<and> predictions (fst (app first_run)) = [] \<and>
   page first_run \<noteq> ''Prediction'' \<and>
   submits submit_run \<and> length (predictions (fst (app submit_run))) = 1 \<and>
   length (predictions (session [first_run, submit_run, first_run, submit_run])) = 2"
  using inference_only_on_submit [of first_run "[first_run, submit_run, first_run, submit_run]"]
    inference_only_on_submit [of submit_run "[]"]
  by (simp add: submits_def first_run_facts submit_run_facts)

subsection \<open>C6: the record assembled on submit\<close>

text \<open>
  C6. The table built on submit has exactly the ten columns \<open>sleep_hours\<close>,
  \<open>exercise_frequency\<close>, \<open>stress_level\<close>, \<open>screen_time\<close>, \<open>study_environment\<close>,
  \<open>access_to_tutoring\<close>, \<open>motivation_level\<close>, \<open>exam_anxiety_score\<close>, \<open>study_efficiency\<close>
  and \<open>screen_time_penalty\<close>, in this order, and exactly one row, which holds under each
  name the value its control returned in that run; a run that submits passes this one
  table, and nothing else, to \<^verbatim>\<open>model.predict\<close>. The outcome of the run is the answer of the
  loaded model to this very table: its exception if it raises, \<^verbatim>\<open>IndexError\<close> if it
  returns no label, and otherwise the label of the first class it returns.
\<close>

theorem submit_assembles_input_record:
  "columns (input_data w) =
     [''sleep_hours'', ''exercise_frequency'', ''stress_level'', ''screen_time'',
      ''study_environment'', ''access_to_tutoring'', ''motivation_level'',
      ''exam_anxiety_score'', ''study_efficiency'', ''screen_time_penalty''] \<and>
   rows (input_data w) =
     [[Some (PyFloat (sleep_hours w)), Some (PyInt (exercise_frequency w)),
       Some (PyFloat (stress_level w)), Some (PyFloat (screen_time w)),
       Some (PyStr (study_environment w)), Some (PyStr (access_to_tutoring w)),
       Some (PyInt (motivation_level w)), Some (PyFloat (exam_anxiety_score w)),
       Some (PyFloat (study_efficiency w)), Some (PyFloat (screen_time_penalty w))]] \<and>
   (submits e \<longrightarrow> predictions (fst (app e)) = [input_data (controls e)]) \<and>
   (submits e \<and> artifact e = Some m \<longrightarrow>
      app e =
        (case m (input_data (controls e)) of
           Inl err \<Rightarrow>
             (startup @ prediction_form @ [Predict (input_data (controls e))], Some err)
         | Inr [] \<Rightarrow>
             (startup @ prediction_form @ [Predict (input_data (controls e))],
              Some IndexError)
         | Inr (y # ys) \<Rightarrow>
             (startup @ prediction_form @
                [Predict (input_data (controls e)),
                 Success (success_message (prediction_label y))],
              None)))"
proof (intro conjI impI)
  show "columns (input_data w) =
     [''sleep_hours'', ''exercise_frequency'', ''stress_level'', ''screen_time'',
      ''study_environment'', ''access_to_tutoring'', ''motivation_level'',
      ''exam_anxiety_score'', ''study_efficiency'', ''screen_time_penalty'']"
    by (rule input_data_columns)
  show "rows (input_data w) =
     [[Some (PyFloat (sleep_hours w)), Some (PyInt (exercise_frequency w)),
       Some (PyFloat (stress_level w)), Some (PyFloat (screen_time w)),
       Some (PyStr (study_environment w)), Some (PyStr (access_to_tutoring w)),
       Some (PyInt (motivation_level w)), Some (PyFloat (exam_anxiety_score w)),
       Some (PyFloat (study_efficiency w)), Some (PyFloat (screen_time_penalty w))]]"
    by (rule input_data_rows)
next
  assume "submits e"
  then show "predictions (fst (app e)) = [input_data (controls e)]"
    by (simp add: predictions_app submits_def)
next
  assume "submits e \<and> artifact e = Some m"
  then show "app e =
        (case m (input_data (controls e)) of
           Inl err \<Rightarrow>
             (startup @ prediction_form @ [Predict (input_data (controls e))], Some err)
         | Inr [] \<Rightarrow>
             (startup @ prediction_form @ [Predict (input_data (controls e))],
              Some IndexError)
         | Inr (y # ys) \<Rightarrow>
             (startup @ prediction_form @
                [Predict (input_data (controls e)),
                 Success (success_message (prediction_label y))],
              None))"
    by (simp add: app_submit)
qed

text \<open>The witness of C6: a submit with every control moved off its default, and the same
  submit with a model that reads \<open>sleep_hours\<close> from its table: with the moved controls
  (8.5 hours) it answers class 2, with the controls at their defaults (7.0 hours)
  class 0, and the run shows the label of that answer.\<close>

theorem submit_assembles_input_record_witness:
  "submits submit_run \<and>
   predictions (fst (app submit_run)) = [input_data moved_values] \<and>
   rows (input_data moved_values) =
     [[Some (PyFloat 8.5), Some (PyInt 5), Some (PyFloat 3.2), Some (PyFloat 0.3),
       Some (PyStr ''Library''), Some (PyStr ''No''), Some (PyInt 10), Some (PyFloat 9.5),
       Some (PyFloat 5.75), Some (PyFloat 12.5)]] \<and>
   submits (submit_run\<lparr>artifact := Some sleep_model\<rparr>) \<and>
   artifact (submit_run\<lparr>artifact := Some sleep_model\<rparr>) = Some sleep_model \<and>
   app (submit_run\<lparr>artifact := Some sleep_model\<rparr>) =
     (startup @ prediction_form @
        [Predict (input_data moved_values), Success (success_message (prediction_label 2))],
      None) \<and>
   submits (submit_run\<lparr>artifact := Some sleep_model, controls := default_values\<rparr>) \<and>
   app (submit_run\<lparr>artifact := Some sleep_model, controls := default_values\<rparr>) =
     (startup @ prediction_form @
        [Predict (input_data default_values),
         Success (success_message (prediction_label 0))],
      None)"
proof -
  let ?e1 = "submit_run\<lparr>artifact := Some sleep_model\<rparr>"
  let ?e2 = "submit_run\<lparr>artifact := Some sleep_model, controls := default_values\<rparr>"
  have s: "sleep_model (input_data moved_values) = Inr [2]"
    "sleep_model (input_data default_values) = Inr [0]"
    by (simp_all add: sleep_model_input_data moved_values_def default_values_def
        sleep_hours_slider_def)
  have sub: "submits submit_run" "submits ?e1" "submits ?e2"
    by (simp_all add: submits_def submit_run_facts)
  have art: "artifact ?e1 = Some sleep_model" "artifact ?e2 = Some sleep_model"
    by simp_all
  have ctl: "controls ?e1 = moved_values" "controls ?e2 = default_values"
    by (simp_all add: submit_run_facts)
  from submit_assembles_input_record [of moved_values submit_run] sub(1)
  have p: "predictions (fst (app submit_run)) = [input_data (controls submit_run)]"
    and r: "rows (input_data moved_values) =
     [[Some (PyFloat (sleep_hours moved_values)), Some (PyInt (exercise_frequency moved_values)),
       Some (PyFloat (stress_level moved_values)), Some (PyFloat (screen_time moved_values)),
       Some (PyStr (study_environment moved_values)),
       Some (PyStr (access_to_tutoring moved_values)),
       Some (PyInt (motivation_level moved_values)),
       Some (PyFloat (exam_anxiety_score moved_values)),
       Some (PyFloat (study_efficiency moved_values)),
       Some (PyFloat (screen_time_penalty moved_values))]]"
    by blast+
  from submit_assembles_input_record [of moved_values ?e1 sleep_model] sub(2) art(1)
  have "app ?e1 =
        (case sleep_model (input_data (controls ?e1)) of
           Inl err \<Rightarrow>
             (startup @ prediction_form @ [Predict (input_data (controls ?e1))], Some err)
         | Inr [] \<Rightarrow>
             (startup @ prediction_form @ [Predict (input_data (controls ?e1))],
              Some IndexError)
         | Inr (y # ys) \<Rightarrow>
             (startup @ prediction_form @
                [Predict (input_data (controls ?e1)),
                 Success (success_message (prediction_label y))],
              None))"
    by blast
  then have a1: "app ?e1 =
     (startup @ prediction_form @
        [Predict (input_data moved_values), Success (success_message (prediction_label 2))],
      None)"
    by (simp only: ctl s sum.case list.case)
  from submit_assembles_input_record [of moved_values ?e2 sleep_model] sub(3) art(2)
  have "app ?e2 =
        (case sleep_model (input_data (controls ?e2)) of
           Inl err \<Rightarrow>
             (startup @ prediction_form @ [Predict (input_data (controls ?e2))], Some err)
         | Inr [] \<Rightarrow>
             (startup @ prediction_form @ [Predict (input_data (controls ?e2))],
              Some IndexError)
         | Inr (y # ys) \<Rightarrow>
             (startup @ prediction_form @
                [Predict (input_data (controls ?e2)),
                 Success (success_message (prediction_label y))],
              None))"
    by blast
  then have a2: "app ?e2 =
     (startup @ prediction_form @
        [Predict (input_data default_values),
         Success (success_message (prediction_label 0))],
      None)"
    by (simp only: ctl s sum.case list.case)
  from r have r': "rows (input_data moved_values) =
     [[Some (PyFloat 8.5), Some (PyInt 5), Some (PyFloat 3.2), Some (PyFloat 0.3),
       Some (PyStr ''Library''), Some (PyStr ''No''), Some (PyInt 10), Some (PyFloat 9.5),
       Some (PyFloat 5.75), Some (PyFloat 12.5)]]"
    by (simp add: moved_values_def)
  from p have p': "predictions (fst (app submit_run)) = [input_data moved_values]"
    by (simp add: submit_run_facts)
  from sub art p' r' a1 a2 show ?thesis
    by blast
qed

subsection \<open>C7: loading the model artifact\<close>

text \<open>
  C7 (as amended). Every run of the script loads the model artifact exactly once, as its
  first step, from the fixed path \<^verbatim>\<open>exam_score_calss_model.pkl\<close>; a session of \<open>n\<close> runs
  loads it \<open>n\<close> times. When the file is missing or unreadable the run ends at the load with
  the exception: nothing else is done in that run, no view is rendered and no prediction
  is made; there is no fallback and no second attempt within the run.
\<close>

theorem model_loaded_every_run:
  "loads (fst (app e)) = 1 \<and> hd (fst (app e)) = JoblibLoad model_path \<and>
   loads (session es) = length es \<and>
   (artifact e = None \<longrightarrow>
      app e = ([JoblibLoad model_path], Some (LoadError model_path)) \<and>
      predictions (fst (app e)) = [])"
  by (simp add: loads_app hd_app loads_session app_load_fails predictions_def)

text \<open>The witness of C7: a run without the artifact, and a session of three runs.\<close>

theorem model_loaded_every_run_witness:
  "artifact (first_run\<lparr>artifact := None\<rparr>) = None \<and>
   app (first_run\<lparr>artifact := None\<rparr>) =
     ([JoblibLoad model_path], Some (LoadError model_path)) \<and>
   loads (session [first_run, submit_run, first_run]) = 3"
  using model_loaded_every_run [of "first_run\<lparr>artifact := None\<rparr>" "[first_run, submit_run, first_run]"]
  by simp

text \<open>C7 as stated fails on a session of two runs (the first load, then a submit): the
  artifact is loaded twice, not once.\<close>

theorem model_loaded_once_counterexample:
  "loads (session [first_run, submit_run]) = 2"
  by (simp add: loads_session)

subsection \<open>C8: the glossary table\<close>

text \<open>
  C8. The table of the Feature Explanation page has the two columns \<open>Feature Name\<close> and
  \<open>Description\<close> and exactly ten rows of two cells, one row per feature name, in the
  fixed order \<open>sleep_hours\<close>, \<open>exercise_frequency\<close>, \<open>stress_level\<close>, \<open>screen_time\<close>,
  \<open>study_environment\<close>, \<open>access_to_tutoring\<close>, \<open>motivation_level\<close>,
  \<open>exam_anxiety_score\<close>, \<open>study_efficiency\<close>, \<open>screen_time_penalty\<close>. Each row is the
  pair of a feature name and its description, as the fixed mapping of the script gives
  them; the ten rows are written out below. Every run of that page (with the model
  loaded, as every page needs) renders the same title, text and table, whatever the
  controls of the Prediction page hold, whatever started the run and whether the image
  file is there.
\<close>

theorem glossary_table_fixed:
  "columns df_features = [''Feature Name'', ''Description''] \<and>
   length (rows df_features) = 10 \<and>
   (\<forall>r \<in> set (rows df_features). length r = 2) \<and>
   map hd (rows df_features) =
     map (\<lambda>k. Some (PyStr k))
       [''sleep_hours'', ''exercise_frequency'', ''stress_level'', ''screen_time'',
        ''study_environment'', ''access_to_tutoring'', ''motivation_level'',
        ''exam_anxiety_score'', ''study_efficiency'', ''screen_time_penalty''] \<and>
   rows df_features = map (\<lambda>(k, d). [Some (PyStr k), Some (PyStr d)]) feature_info \<and>
   rows df_features =
     [[Some (PyStr ''sleep_hours''),
       Some (PyStr (''Average number of hours the student sleeps per day. Adequate sleep improves focus, memory, and academic performance.''))],
      [Some (PyStr ''exercise_frequency''),
       Some (PyStr (''Number of times the student exercises per week. Regular exercise is linked to better mental health and concentration.''))],
      [Some (PyStr ''stress_level''),
       Some (PyStr (''Measures the student'' @ [CHR 0x27] @ ''s stress level on a scale from 1 to 10. Higher stress often negatively impacts academic outcomes.''))],
      [Some (PyStr ''screen_time''),
       Some (PyStr (''Total daily screen time in hours. Excessive screen usage may reduce study time and sleep quality.''))],
      [Some (PyStr ''study_environment''),
       Some (PyStr (''The environment where the student usually studies (e.g., quiet room, library). A better environment enhances productivity.''))],
      [Some (PyStr ''access_to_tutoring''),
       Some (PyStr (''Indicates whether the student has access to additional tutoring or academic support.''))],
      [Some (PyStr ''motivation_level''),
       Some (PyStr (''Represents how motivated the student is to study, rated from 1 to 10. Higher motivation usually leads to better performance.''))],
      [Some (PyStr ''exam_anxiety_score''),
       Some (PyStr (''Measures anxiety level before exams. High anxiety can reduce exam performance despite good preparation.''))],
      [Some (PyStr ''study_efficiency''),
       Some (PyStr (''Represents how effectively the student studies within a given time. Higher values indicate better focus and learning quality.''))],
      [Some (PyStr ''screen_time_penalty''),
       Some (PyStr (''Quantifies the negative impact of excessive screen time on academic performance.''))]] \<and>
   (artifact e = Some m \<and> page e = ''Feature Explanation'' \<longrightarrow>
      app e =
        (startup @ [Title feature_title, Markdown feature_intro, StDataframe df_features True],
         None))"
proof (intro conjI ballI impI)
  show "columns df_features = [''Feature Name'', ''Description'']"
    by (simp add: df_features_def DataFrame_of_items_shape)
  have "length (rows df_features) = length (map fst feature_info)"
    by (simp add: df_features_def DataFrame_of_items_shape)
  then show "length (rows df_features) = 10"
    by (simp only: feature_info_keys) simp
  show "map hd (rows df_features) =
     map (\<lambda>k. Some (PyStr k))
       [''sleep_hours'', ''exercise_frequency'', ''stress_level'', ''screen_time'',
        ''study_environment'', ''access_to_tutoring'', ''motivation_level'',
        ''exam_anxiety_score'', ''study_efficiency'', ''screen_time_penalty'']"
    by (simp only: df_features_def DataFrame_of_items_shape feature_info_keys)
  show "rows df_features = map (\<lambda>(k, d). [Some (PyStr k), Some (PyStr d)]) feature_info"
    by (rule df_features_rows)
  show "rows df_features =
     [[Some (PyStr ''sleep_hours''),
       Some (PyStr (''Average number of hours the student sleeps per day. Adequate sleep improves focus, memory, and academic performance.''))],
      [Some (PyStr ''exercise_frequency''),
       Some (PyStr (''Number of times the student exercises per week. Regular exercise is linked to better mental health and concentration.''))],
      [Some (PyStr ''stress_level''),
       Some (PyStr (''Measures the student'' @ [CHR 0x27] @ ''s stress level on a scale from 1 to 10. Higher stress often negatively impacts academic outcomes.''))],
      [Some (PyStr ''screen_time''),
       Some (PyStr (''Total daily screen time in hours. Excessive screen usage may reduce study time and sleep quality.''))],
      [Some (PyStr ''study_environment''),
       Some (PyStr (''The environment where the student usually studies (e.g., quiet room, library). A better environment enhances productivity.''))],
      [Some (PyStr ''access_to_tutoring''),
       Some (PyStr (''Indicates whether the student has access to additional tutoring or academic support.''))],
      [Some (PyStr ''motivation_level''),
       Some (PyStr (''Represents how motivated the student is to study, rated from 1 to 10. Higher motivation usually leads to better performance.''))],
      [Some (PyStr ''exam_anxiety_score''),
       Some (PyStr (''Measures anxiety level before exams. High anxiety can reduce exam performance despite good preparation.''))],
      [Some (PyStr ''study_efficiency''),
       Some (PyStr (''Represents how effectively the student studies within a given time. Higher values indicate better focus and learning quality.''))],
      [Some (PyStr ''screen_time_penalty''),
       Some (PyStr (''Quantifies the negative impact of excessive screen time on academic performance.''))]]"
    by (rule df_features_table)
next
  fix r
  assume "r \<in> set (rows df_features)"
  then show "length r = 2"
    by (simp add: df_features_def DataFrame_of_items_shape)
next
  assume "artifact e = Some m \<and> page e = ''Feature Explanation''"
  then show "app e =
        (startup @ [Title feature_title, Markdown feature_intro, StDataframe df_features True],
         None)"
    by (simp add: app_feature feature_explanation_page_def)
qed

text \<open>The witness of C8: two runs of the page that differ in the model, the image file,
  the controls and the trigger render the same.\<close>

theorem glossary_table_fixed_witness:
  "artifact (submit_run\<lparr>page := ''Feature Explanation''\<rparr>) = Some (constant_model [1, 0]) \<and>
   app (submit_run\<lparr>page := ''Feature Explanation''\<rparr>) =
     (startup @ [Title feature_title, Markdown feature_intro, StDataframe df_features True],
      None) \<and>
   app (first_run_no_image\<lparr>page := ''Feature Explanation''\<rparr>) =
     app (submit_run\<lparr>page := ''Feature Explanation''\<rparr>) \<and>
   length (hd (rows df_features)) = 2"
proof -
  have r: "hd (rows df_features) \<in> set (rows df_features)"
    by (simp add: df_features_def DataFrame_of_items_def feature_info_def)
  show ?thesis
    using glossary_table_fixed [of "submit_run\<lparr>page := ''Feature Explanation''\<rparr>" "constant_model [1, 0]"]
      glossary_table_fixed [of "first_run_no_image\<lparr>page := ''Feature Explanation''\<rparr>" "constant_model [2]"]
      r
    by (simp add: submit_run_facts first_run_no_image_facts)
qed

subsection \<open>C9: the navigation\<close>

text \<open>
  C9. The navigation offers exactly the three page names \<open>Project Overview\<close>,
  \<open>Feature Explanation\<close> and \<open>Prediction\<close>, and its first selection is
  \<open>Project Overview\<close>. A run (with the model loaded) shows exactly one selector, the radio
  over these three names, and then renders the view of the selected name and no other:
  of the three view titles exactly one is among what the run rendered.
\<close>

theorem navigation_selects_one_view:
  "navigation_options = [''Project Overview'', ''Feature Explanation'', ''Prediction''] \<and>
   radio_initial navigation_options = ''Project Overview'' \<and>
   (artifact e = Some m \<longrightarrow>
      radios (fst (app e)) = [SidebarRadio ''Navigation'' navigation_options] \<and>
      (page e = ''Project Overview'' \<longrightarrow>
         app e = (startup @ fst (overview_page e), snd (overview_page e))) \<and>
      (page e = ''Feature Explanation'' \<longrightarrow>
         app e = (startup @ fst feature_explanation_page, snd feature_explanation_page)) \<and>
      (page e = ''Prediction'' \<longrightarrow>
         app e = (startup @ fst (prediction_page m e), snd (prediction_page m e))) \<and>
      (page e \<in> set navigation_options \<longrightarrow>
         length (filter (\<lambda>t. Title t \<in> set (fst (app e)))
                   [overview_title, feature_title, prediction_title]) = 1))"
proof -
  have "length (filter (\<lambda>t. Title t \<in> set (fst (app e)))
                   [overview_title, feature_title, prediction_title]) = 1"
    if "artifact e = Some m" "page e \<in> set navigation_options"
    by (simp only: one_title [OF that]) simp
  then show ?thesis
    by (simp add: navigation_options_def radio_initial_def radios_app app_overview
        app_feature app_prediction)
qed

text \<open>The witness of C9: the first run of a session, and a submit on the Prediction
  page.\<close>

theorem navigation_selects_one_view_witness:
  "artifact first_run = Some (constant_model [2]) \<and>
   page first_run = ''Project Overview'' \<and>
   app first_run = (startup @ fst (overview_page first_run), snd (overview_page first_run)) \<and>
   radios (fst (app first_run)) = [SidebarRadio ''Navigation'' navigation_options] \<and>
   artifact (first_run\<lparr>page := ''Feature Explanation''\<rparr>) = Some (constant_model [2]) \<and>
   page (first_run\<lparr>page := ''Feature Explanation''\<rparr>) = ''Feature Explanation'' \<and>
   app (first_run\<lparr>page := ''Feature Explanation''\<rparr>) =
     (startup @ fst feature_explanation_page, snd feature_explanation_page) \<and>
   artifact submit_run = Some (constant_model [1, 0]) \<and>
   page submit_run = ''Prediction'' \<and>
   app submit_run =
     (startup @ fst (prediction_page (constant_model [1, 0]) submit_run),
      snd (prediction_page (constant_model [1, 0]) submit_run)) \<and>
   page submit_run \<in> set navigation_options \<and>
   length (filter (\<lambda>t. Title t \<in> set (fst (app submit_run)))
             [overview_title, feature_title, prediction_title]) = 1"
proof -
  have p: "page submit_run \<in> set navigation_options"
    by (simp add: submit_run_facts navigation_options_def)
  have f: "artifact (first_run\<lparr>page := ''Feature Explanation''\<rparr>) = Some (constant_model [2])"
    "page (first_run\<lparr>page := ''Feature Explanation''\<rparr>) = ''Feature Explanation''"
    by (simp_all add: first_run_facts)
  from navigation_selects_one_view [of first_run "constant_model [2]"]
    navigation_selects_one_view
      [of "first_run\<lparr>page := ''Feature Explanation''\<rparr>" "constant_model [2]"]
    navigation_selects_one_view [of submit_run "constant_model [1, 0]"]
    first_run_facts(1) first_run_facts(3) f submit_run_facts(1) submit_run_facts(3) p
  show ?thesis
    by blast
qed

subsection \<open>C10: element 0 of the prediction\<close>

text \<open>
  C10. The table passed to \<^verbatim>\<open>model.predict\<close> has exactly one row. When a run submits and
  the model returns at least one label, the run ends without an exception and shows the
  label of the first returned element, whatever the other elements are. The indexing is
  unguarded: when the model returns no label, the run ends with \<^verbatim>\<open>IndexError\<close> after the
  call.
\<close>

theorem first_prediction_decides_label:
  "length (rows (input_data w)) = 1 \<and>
   (submits e \<and> artifact e = Some m \<and> m (input_data (controls e)) = Inr (y # ys) \<longrightarrow>
      app e =
        (startup @ prediction_form @
           [Predict (input_data (controls e)),
            Success (success_message (prediction_label y))],
         None)) \<and>
   (submits e \<and> artifact e = Some m \<and> m (input_data (controls e)) = Inr [] \<longrightarrow>
      app e = (startup @ prediction_form @ [Predict (input_data (controls e))],
               Some IndexError))"
  by (simp add: input_data_rows submits_def app_prediction prediction_page_def st_button_def
      first_prediction_def)

text \<open>The witness of C10: a model that returns two labels, and one that returns none.\<close>

theorem first_prediction_decides_label_witness:
  "submits submit_run \<and> artifact submit_run = Some (constant_model [1, 0]) \<and>
   constant_model [1, 0] (input_data (controls submit_run)) = Inr [1, 0] \<and>
   app submit_run =
     (startup @ prediction_form @
        [Predict (input_data (controls submit_run)),
         Success (success_message (prediction_label 1))],
      None) \<and>
   submits (submit_run\<lparr>artifact := Some (constant_model [])\<rparr>) \<and>
   app (submit_run\<lparr>artifact := Some (constant_model [])\<rparr>) =
     (startup @ prediction_form @ [Predict (input_data (controls submit_run))],
      Some IndexError)"
  using first_prediction_decides_label [of _ submit_run "constant_model [1, 0]" 1 "[0]"]
    first_prediction_decides_label [of _ "submit_run\<lparr>artifact := Some (constant_model [])\<rparr>" "constant_model []"]
  by (simp add: submits_def submit_run_facts constant_model_def)

end
